theory Spec2Isabelle
  imports Main
begin

section \<open>Strings\<close>

text \<open>
  JavaScript strings are modelled as \<open>string\<close>: one \<open>char\<close> per code unit, restricted
  to the 8-bit range (ASCII and Latin-1), where the length of a string is its number of
  code units and \<open>toLowerCase\<close> changes the letters \<open>A\<close> to \<open>Z\<close> only.
\<close>

definition lowerChar :: "char \<Rightarrow> char" where
  "lowerChar c =
     (let n = (of_char c :: nat) in if 65 \<le> n \<and> n \<le> 90 then char_of (n + 32) else c)"

definition toLowerCase :: "string \<Rightarrow> string" where
  "toLowerCase s = map lowerChar s"

text \<open>\<open>s.startsWith(sub)\<close> and \<open>s.includes(sub)\<close>: \<open>sub\<close> occurs in \<open>s\<close>, at the front or anywhere.\<close>

definition startsWith :: "string \<Rightarrow> string \<Rightarrow> bool" where
  "startsWith s sub = (take (length sub) s = sub)"

primrec includesStr :: "string \<Rightarrow> string \<Rightarrow> bool" where
  "includesStr [] sub = (sub = [])"
| "includesStr (c # cs) sub = (startsWith (c # cs) sub \<or> includesStr cs sub)"

section \<open>Errors of the identity provider and their classification\<close>

datatype AuthErrorCode =
    INVALID_CREDENTIALS
  | EMAIL_ALREADY_REGISTERED
  | EMAIL_NOT_CONFIRMED
  | RATE_LIMITED
  | NETWORK
  | LINK_EXPIRED_OR_INVALID
  | WEAK_PASSWORD
  | INVALID_EMAIL
  | UNKNOWN

text \<open>
  The error object a call throws or returns, in the shape the source documents for it:
  \<^verbatim>\<open>{ message: string; status?: number; name?: string }\<close>. A field that is absent is
  \<open>None\<close>; \<open>status\<close> is \<open>None\<close> as well when \<open>Number(err?.status)\<close> is \<open>NaN\<close>
  (a status that is no number).
\<close>

record raw_error =
  message :: "string option"
  status :: "int option"
  name :: "string option"

text \<open>\<^verbatim>\<open>(err?.message || "")\<close>: an absent and an empty message are both the empty string.\<close>

definition messageOr :: "raw_error \<Rightarrow> string \<Rightarrow> string" where
  "messageOr err dflt = (case message err of None \<Rightarrow> dflt | Some m \<Rightarrow> if m = [] then dflt else m)"

text \<open>\<^verbatim>\<open>Number(err?.status) || 0\<close>: an absent or non-numeric status is 0.\<close>

definition statusOf :: "raw_error \<Rightarrow> int" where
  "statusOf err = (case status err of None \<Rightarrow> 0 | Some n \<Rightarrow> n)"

definition normalizeError :: "raw_error \<Rightarrow> AuthErrorCode \<times> string" where
  "normalizeError err =
     (let msg = toLowerCase (messageOr err '''');
          st = statusOf err
      in
      if st = 429 \<or> includesStr msg ''too many requests'' then
        (RATE_LIMITED, ''Too many attempts. Try again later.'')
      else if includesStr msg ''invalid login credentials'' \<or> includesStr msg ''invalid credentials'' then
        (INVALID_CREDENTIALS, ''Invalid login credentials.'')
      else if includesStr msg ''email not confirmed'' \<or> includesStr msg ''confirm your email'' then
        (EMAIL_NOT_CONFIRMED, ''Please confirm your email to continue.'')
      else if includesStr msg ''already registered'' \<or> includesStr msg ''user already exists''
              \<or> includesStr msg ''email already in use'' then
        (EMAIL_ALREADY_REGISTERED, ''Email is already registered.'')
      else if includesStr msg ''reset token is invalid'' \<or> includesStr msg ''token expired''
              \<or> includesStr msg ''invalid or expired'' then
        (LINK_EXPIRED_OR_INVALID, ''This link is invalid or has expired.'')
      else if includesStr msg ''password should be at least'' \<or> includesStr msg ''password too short'' then
        (WEAK_PASSWORD, ''Password is too weak. Use at least 8 characters.'')
      else if includesStr msg ''network'' \<or> st = 0 then
        (NETWORK, ''Network error. Check your connection and try again.'')
      else (UNKNOWN, messageOr err ''Something went wrong.''))"

section \<open>The retry wrapper\<close>

text \<open>
  The wrapped operation is a call to an external service: calling it again may give
  another outcome. It is modelled by its outcome at each call, \<open>fn k\<close> being what the
  call made after \<open>k\<close> earlier calls does: \<open>Inl err\<close> when it throws \<open>err\<close>, \<open>Inr v\<close> when
  it resolves to \<open>v\<close>. The result of \<open>withRetry\<close> records, beside the outcome, the number
  of calls made and the delays waited between them (in milliseconds).
\<close>

record 'a retried =
  outcome :: "raw_error + 'a"
  calls :: nat
  waits :: "nat list"

definition transient :: "raw_error \<Rightarrow> bool" where
  "transient err =
     (let msg = toLowerCase (messageOr err '''');
          st = statusOf err
      in st = 429 \<or> st = 0 \<or> includesStr msg ''network'')"

text \<open>The value of \<open>lastErr\<close> before any assignment: \<open>undefined\<close>, which has no field.\<close>

definition undefinedErr :: raw_error where
  "undefinedErr = \<lparr>message = None, status = None, name = None\<rparr>"

function retryLoop ::
  "(nat \<Rightarrow> raw_error + 'a) \<Rightarrow> nat \<Rightarrow> nat \<Rightarrow> nat \<Rightarrow> raw_error \<Rightarrow> nat \<Rightarrow> nat list \<Rightarrow> 'a retried"
where
  "retryLoop fn ntimes baseDelayMs i lastErr n ws =
     (if i \<le> ntimes then
        (case fn n of
           Inr v \<Rightarrow> \<lparr>outcome = Inr v, calls = n + 1, waits = ws\<rparr>
         | Inl err \<Rightarrow>
             if \<not> transient err \<or> i = ntimes
             then \<lparr>outcome = Inl err, calls = n + 1, waits = ws\<rparr>
             else retryLoop fn ntimes baseDelayMs (i + 1) err (n + 1) (ws @ [baseDelayMs * 2 ^ i]))
      else \<lparr>outcome = Inl lastErr, calls = n, waits = ws\<rparr>)"
  by pat_completeness auto
termination
  by (relation "measure (\<lambda>(fn, ntimes, baseDelayMs, i, lastErr, n, ws). Suc ntimes - i)") auto

definition withRetry :: "(nat \<Rightarrow> raw_error + 'a) \<Rightarrow> nat \<Rightarrow> nat \<Rightarrow> 'a retried" where
  "withRetry fn ntimes baseDelayMs = retryLoop fn ntimes baseDelayMs 0 undefinedErr 0 []"

text \<open>The defaults of the source: \<^verbatim>\<open>times = 2, baseDelayMs = 400\<close>.\<close>

definition withRetryDefault :: "(nat \<Rightarrow> raw_error + 'a) \<Rightarrow> 'a retried" where
  "withRetryDefault fn = withRetry fn 2 400"

section \<open>Local validation\<close>

text \<open>
  The email pattern of the source is \<^verbatim>\<open>/^[^\s@]+@[^\s@]+\.[^\s@]+$/\<close>: a sequence of
  literal characters and of character classes under \<open>+\<close>, anchored at both ends. Such a
  pattern is a list of items, and \<open>regexTest\<close> is the backtracking match of a whole string
  against it: a class under \<open>+\<close> takes one character of the class, and then either
  hands over to the rest of the pattern or takes more.
\<close>

datatype item = Lit char | Plus "char \<Rightarrow> bool"

fun regexTest :: "item list \<Rightarrow> string \<Rightarrow> bool" where
  "regexTest [] s = (s = [])"
| "regexTest (Lit c # ps) [] = False"
| "regexTest (Lit c # ps) (x # xs) = (x = c \<and> regexTest ps xs)"
| "regexTest (Plus p # ps) [] = False"
| "regexTest (Plus p # ps) (x # xs) = (p x \<and> (regexTest ps xs \<or> regexTest (Plus p # ps) xs))"

text \<open>The class \<^verbatim>\<open>\s\<close> within the 8-bit range: tab to carriage return, space, no-break space.\<close>

definition isSpace :: "char \<Rightarrow> bool" where
  "isSpace c = (let n = (of_char c :: nat) in (9 \<le> n \<and> n \<le> 13) \<or> n = 32 \<or> n = 160)"

text \<open>The class \<^verbatim>\<open>[^\s@]\<close>.\<close>

definition notSpaceAt :: "char \<Rightarrow> bool" where
  "notSpaceAt c = (\<not> isSpace c \<and> c \<noteq> CHR ''@'')"

definition emailPattern :: "item list" where
  "emailPattern = [Plus notSpaceAt, Lit CHR ''@'', Plus notSpaceAt, Lit CHR ''.'', Plus notSpaceAt]"

definition isValidEmail :: "string \<Rightarrow> bool" where
  "isValidEmail email = regexTest emailPattern email"

definition isStrongPassword :: "string \<Rightarrow> bool" where
  "isStrongPassword pwd = (length pwd \<ge> 8)"

section \<open>Dates and the time zone\<close>

text \<open>
  Times are milliseconds since the epoch, as \<open>Date.getTime()\<close> gives them; a stored
  timestamp and its ISO string are the same value. \<open>getHours\<close> and \<open>setHours\<close> work on
  local time, and which local time the runtime has lies outside the program: the time
  zone is a parameter. It is given by the two directions of the language's local time
  zone adjustment: \<open>offsetAt\<close>, the offset of local time from UTC at an instant, and
  \<open>offsetOfLocal\<close>, the offset that belongs to a local time value (the one before the
  change, for a local time that a change to daylight-saving time skips).
\<close>

record time_zone =
  offsetAt :: "int \<Rightarrow> int"
  offsetOfLocal :: "int \<Rightarrow> int"

definition msPerSecond :: int where
  "msPerSecond = 1000"

definition msPerMinute :: int where
  "msPerMinute = 60 * 1000"

definition msPerHour :: int where
  "msPerHour = 60 * 60 * 1000"

definition msPerDay :: int where
  "msPerDay = 24 * 60 * 60 * 1000"

definition localTime :: "time_zone \<Rightarrow> int \<Rightarrow> int" where
  "localTime zone t = t + offsetAt zone t"

definition utcTime :: "time_zone \<Rightarrow> int \<Rightarrow> int" where
  "utcTime zone loc = loc - offsetOfLocal zone loc"

text \<open>\<open>d.getHours()\<close> for the date \<open>d\<close> of time value \<open>t\<close>: the hour of the local day.\<close>

definition getHours :: "time_zone \<Rightarrow> int \<Rightarrow> int" where
  "getHours zone t = (localTime zone t div msPerHour) mod 24"

text \<open>
  \<open>d.setHours(hour)\<close>: the new time value of \<open>d\<close>. The local day, minute, second and
  millisecond are kept, the hour is replaced (an hour beyond 23 runs into the days that
  follow), and the local time so made is taken back to UTC.
\<close>

definition setHours :: "time_zone \<Rightarrow> int \<Rightarrow> int \<Rightarrow> int" where
  "setHours zone t hour =
     (let loc = localTime zone t;
          dayNo = loc div msPerDay;
          timeInDay = hour * msPerHour + (loc div msPerMinute mod 60) * msPerMinute
                      + (loc div msPerSecond mod 60) * msPerSecond + loc mod msPerSecond
      in utcTime zone (dayNo * msPerDay + timeInDay))"

text \<open>\<^verbatim>\<open>d.setHours(d.getHours() + 24)\<close>, as both the sign-up and the balance fetch do.\<close>

definition setHoursPlus24 :: "time_zone \<Rightarrow> int \<Rightarrow> int" where
  "setHoursPlus24 zone t = setHours zone t (getHours zone t + 24)"

section \<open>The account store\<close>

text \<open>
  A row of the table \<open>user_profiles\<close>: the two columns the balance fetch selects, and
  the two the sign-up writes beside them. A column that holds \<open>null\<close> is \<open>None\<close>. The table
  maps the value of the column \<open>id\<close>, which the queries of the balance fetch filter on,
  to the row.
\<close>

record credit_cols =
  credits :: "int option"
  credits_reset_at :: "int option"

record user_profile = credit_cols +
  user_id :: string
  email :: string

type_synonym user_profiles = "string \<rightharpoonup> user_profile"

text \<open>
  The store is an external service. What a request does is given by a mode: the store
  carries it out (\<open>Done\<close>), answers with an error value (\<open>Refused\<close>, the client's
  convention: the promise resolves to \<^verbatim>\<open>{ data: null, error }\<close>), or the call throws
  (\<open>Thrown\<close>). A request that is not carried out leaves the table as it is.
\<close>

datatype db_mode = Done | Refused | Thrown raw_error

text \<open>
  \<^verbatim>\<open>.select('credits, credits_reset_at').eq('id', userId).single()\<close>: the \<open>data\<close> of the
  answer, \<open>None\<close> for \<open>null\<close> (no such row, or an error value).
\<close>

definition selectSingle :: "db_mode \<Rightarrow> user_profiles \<Rightarrow> string \<Rightarrow> raw_error + credit_cols option" where
  "selectSingle mode tbl userId =
     (case mode of
        Thrown e \<Rightarrow> Inl e
      | Refused \<Rightarrow> Inr None
      | Done \<Rightarrow> Inr (map_option credit_cols.truncate (tbl userId)))"

text \<open>
  \<^verbatim>\<open>.update({ credits, credits_reset_at }).eq('id', userId)\<close>: whether the answer carries
  an error, and the table afterwards.
\<close>

definition updateById ::
  "db_mode \<Rightarrow> user_profiles \<Rightarrow> string \<Rightarrow> int option \<Rightarrow> int option \<Rightarrow> raw_error + bool \<times> user_profiles"
where
  "updateById mode tbl userId c t =
     (case mode of
        Thrown e \<Rightarrow> Inl e
      | Refused \<Rightarrow> Inr (True, tbl)
      | Done \<Rightarrow>
          Inr (False,
            case tbl userId of
              None \<Rightarrow> tbl
            | Some row \<Rightarrow> tbl(userId \<mapsto> row\<lparr>credits := c, credits_reset_at := t\<rparr>)))"

text \<open>
  \<^verbatim>\<open>.insert(row)\<close>: the store gives the new row the id \<open>newId\<close>; an id that is taken
  makes the answer an error value.
\<close>

definition insertRow ::
  "db_mode \<Rightarrow> user_profiles \<Rightarrow> string \<Rightarrow> user_profile \<Rightarrow> raw_error + bool \<times> user_profiles"
where
  "insertRow mode tbl newId row =
     (case mode of
        Thrown e \<Rightarrow> Inl e
      | Refused \<Rightarrow> Inr (True, tbl)
      | Done \<Rightarrow> if tbl newId = None then Inr (False, tbl(newId \<mapsto> row)) else Inr (True, tbl))"

section \<open>Sign up and sign in\<close>

datatype AuthResult =
    Success "string option" "string option"
  | Failure AuthErrorCode string "raw_error option"

text \<open>
  What a call of the identity provider resolves to, \<^verbatim>\<open>{ data, error }\<close>: \<open>reply_user\<close> is
  \<^verbatim>\<open>data?.user?.id\<close>, \<open>reply_error\<close> the error value (\<open>None\<close> for \<open>null\<close>).
\<close>

record auth_reply =
  reply_user :: "string option"
  reply_error :: "raw_error option"

text \<open>The result of an operation, the number of provider calls it made, and the table afterwards.\<close>

record auth_run =
  result :: AuthResult
  providerCalls :: nat
  profiles :: user_profiles

definition failureOf :: "raw_error \<Rightarrow> AuthResult" where
  "failureOf err = (case normalizeError err of (code, msg) \<Rightarrow> Failure code msg (Some err))"

definition signUpUser ::
  "time_zone \<Rightarrow> (string \<Rightarrow> string \<Rightarrow> nat \<Rightarrow> raw_error + auth_reply) \<Rightarrow> db_mode \<Rightarrow> string \<Rightarrow> int \<Rightarrow>
   user_profiles \<Rightarrow> string \<Rightarrow> string \<Rightarrow> auth_run"
where
  "signUpUser zone signUp insertMode newId now tbl mail password =
     (if \<not> isValidEmail mail then
        \<lparr>result = Failure INVALID_EMAIL ''Enter a valid email address.'' None,
         providerCalls = 0, profiles = tbl\<rparr>
      else if \<not> isStrongPassword password then
        \<lparr>result = Failure WEAK_PASSWORD ''Password must be at least 8 characters.'' None,
         providerCalls = 0, profiles = tbl\<rparr>
      else
        (let r = withRetryDefault (signUp mail password) in
         case outcome r of
           Inl err \<Rightarrow> \<lparr>result = failureOf err, providerCalls = calls r, profiles = tbl\<rparr>
         | Inr reply \<Rightarrow>
             (case reply_error reply of
                Some error \<Rightarrow> \<lparr>result = failureOf error, providerCalls = calls r, profiles = tbl\<rparr>
              | None \<Rightarrow>
                  (let ok = Success (Some ''Account created. Check your email to confirm your account.'')
                              (reply_user reply)
                   in
                   case reply_user reply of
                     None \<Rightarrow> \<lparr>result = ok, providerCalls = calls r, profiles = tbl\<rparr>
                   | Some uid \<Rightarrow>
                       if uid = [] then \<lparr>result = ok, providerCalls = calls r, profiles = tbl\<rparr>
                       else
                         (case insertRow insertMode tbl newId
                                 \<lparr>credits = Some 5, credits_reset_at = Some (setHoursPlus24 zone now),
                                  user_id = uid, email = mail\<rparr> of
                            Inl err \<Rightarrow>
                              \<lparr>result = failureOf err, providerCalls = calls r, profiles = tbl\<rparr>
                          | Inr (profileError, tbl') \<Rightarrow>
                              \<lparr>result = ok, providerCalls = calls r, profiles = tbl'\<rparr>)))))"


section \<open>The balance fetch of the session hook\<close>

text \<open>The state of the hook \<open>useAuth\<close>; \<open>creditsShown\<close> is its state variable \<open>credits\<close>.\<close>

record auth_state =
  user :: "string option"
  creditsShown :: int
  resetTime :: "int option"
  loading :: bool

definition initialState :: auth_state where
  "initialState = \<lparr>user = None, creditsShown = 0, resetTime = None, loading = True\<rparr>"

text \<open>\<^verbatim>\<open>new Date(data.credits_reset_at)\<close>: \<open>null\<close> is the epoch.\<close>

definition dateOf :: "int option \<Rightarrow> int" where
  "dateOf t = (case t of None \<Rightarrow> 0 | Some ms \<Rightarrow> ms)"

text \<open>\<^verbatim>\<open>data.credits || 5\<close>: \<open>null\<close> and 0 are both falsy.\<close>

definition creditsOr5 :: "int option \<Rightarrow> int" where
  "creditsOr5 c = (case c of None \<Rightarrow> 5 | Some n \<Rightarrow> if n = 0 then 5 else n)"

text \<open>
  The body of the \<open>try\<close> block. The clock is read twice: \<open>now\<close> for the comparison,
  \<open>nowAtReset\<close> when the new reset time is made. \<open>Inl\<close> is an exception leaving the block.
\<close>

definition fetchBody ::
  "time_zone \<Rightarrow> db_mode \<Rightarrow> db_mode \<Rightarrow> int \<Rightarrow> int \<Rightarrow> user_profiles \<Rightarrow> auth_state \<Rightarrow> string \<Rightarrow>
   raw_error + auth_state \<times> user_profiles"
where
  "fetchBody zone selectMode updateMode now nowAtReset tbl st userId =
     (case selectSingle selectMode tbl userId of
        Inl e \<Rightarrow> Inl e
      | Inr None \<Rightarrow> Inr (st, tbl)
      | Inr (Some data) \<Rightarrow>
          if now \<ge> dateOf (credits_reset_at data) then
            (let newResetTime = setHoursPlus24 zone nowAtReset in
             case updateById updateMode tbl userId (Some 5) (Some newResetTime) of
               Inl e \<Rightarrow> Inl e
             | Inr (updateError, tbl') \<Rightarrow>
                 if \<not> updateError
                 then Inr (st\<lparr>creditsShown := 5, resetTime := Some newResetTime\<rparr>, tbl')
                 else Inr (st, tbl'))
          else
            Inr (st\<lparr>creditsShown := creditsOr5 (credits data),
                    resetTime := credits_reset_at data\<rparr>, tbl))"

text \<open>The whole function: the \<open>catch\<close> block logs the exception and shows 5 credits.\<close>

definition fetchUserCredits ::
  "time_zone \<Rightarrow> db_mode \<Rightarrow> db_mode \<Rightarrow> int \<Rightarrow> int \<Rightarrow> user_profiles \<Rightarrow> auth_state \<Rightarrow> string \<Rightarrow>
   auth_state \<times> user_profiles"
where
  "fetchUserCredits zone selectMode updateMode now nowAtReset tbl st userId =
     (case fetchBody zone selectMode updateMode now nowAtReset tbl st userId of
        Inl e \<Rightarrow> (st\<lparr>creditsShown := 5\<rparr>, tbl)
      | Inr r \<Rightarrow> r)"

section \<open>The countdown of the credit display\<close>

definition digitChar :: "nat \<Rightarrow> char" where
  "digitChar d = char_of (48 + d)"

fun digits :: "nat \<Rightarrow> string" where
  "digits n = (if n < 10 then [digitChar n] else digits (n div 10) @ [digitChar (n mod 10)])"

text \<open>A whole number in a template string: its decimal digits, after a sign when negative.\<close>

definition showInt :: "int \<Rightarrow> string" where
  "showInt i = (if i < 0 then CHR ''-'' # digits (nat (- i)) else digits (nat i))"

text \<open>
  \<open>updateResetTimer\<close> at the clock value \<open>now\<close>, for the reset time \<open>reset\<close>: the text it
  puts into \<open>timeUntilReset\<close>. \<open>Math.floor\<close> of a quotient of whole numbers is \<open>div\<close>.
\<close>

definition updateResetTimer :: "int \<Rightarrow> int \<Rightarrow> string" where
  "updateResetTimer now reset =
     (let diff = reset - now in
      if diff \<le> 0 then ''Resetting...''
      else
        (let hours = diff div (1000 * 60 * 60);
             minutes = (diff mod (1000 * 60 * 60)) div (1000 * 60)
         in showInt hours @ ''h '' @ showInt minutes @ ''m''))"

text \<open>The value of a decimal digit, to read a rendered number back.\<close>

definition digitValue :: "char \<Rightarrow> nat" where
  "digitValue c = of_char c - 48"


section \<open>The precedence list of the specification\<close>

text \<open>
  The specification gives the classification as a list of rules, the first that matches
  winning: each rule is a test of the lower-cased message and the status, with the kind
  and the message it stands for. No rule matching is \<open>None\<close> (the kind \<open>UNKNOWN\<close>).
\<close>

type_synonym rule = "(string \<Rightarrow> int \<Rightarrow> bool) \<times> AuthErrorCode \<times> string"

definition precedenceSpec :: "rule list" where
  "precedenceSpec =
     [(\<lambda>msg st. st = 429 \<or> includesStr msg ''too many requests'',
         RATE_LIMITED, ''Too many attempts. Try again later.''),
      (\<lambda>msg st. includesStr msg ''invalid login credentials'' \<or> includesStr msg ''invalid credentials'',
         INVALID_CREDENTIALS, ''Invalid login credentials.''),
      (\<lambda>msg st. includesStr msg ''email not confirmed'' \<or> includesStr msg ''confirm your email'',
         EMAIL_NOT_CONFIRMED, ''Please confirm your email to continue.''),
      (\<lambda>msg st. includesStr msg ''already registered'' \<or> includesStr msg ''user already exists''
                 \<or> includesStr msg ''email already in use'',
         EMAIL_ALREADY_REGISTERED, ''Email is already registered.''),
      (\<lambda>msg st. includesStr msg ''reset token is invalid'' \<or> includesStr msg ''token expired''
                 \<or> includesStr msg ''invalid or expired'',
         LINK_EXPIRED_OR_INVALID, ''This link is invalid or has expired.''),
      (\<lambda>msg st. includesStr msg ''password should be at least'' \<or> includesStr msg ''password too short'',
         WEAK_PASSWORD, ''Password is too weak. Use at least 8 characters.''),
      (\<lambda>msg st. includesStr msg ''network'' \<or> st = 0,
         NETWORK, ''Network error. Check your connection and try again.'')]"

fun firstMatch :: "rule list \<Rightarrow> string \<Rightarrow> int \<Rightarrow> (AuthErrorCode \<times> string) option" where
  "firstMatch [] msg st = None"
| "firstMatch ((p, r) # rs) msg st = (if p msg st then Some r else firstMatch rs msg st)"

text \<open>
  The message tests of the first six rules: every test of the list but the two on the
  status and the one for ``network''.
\<close>

definition firstSixMatch :: "string \<Rightarrow> bool" where
  "firstSixMatch msg =
     (includesStr msg ''too many requests''
      \<or> includesStr msg ''invalid login credentials'' \<or> includesStr msg ''invalid credentials''
      \<or> includesStr msg ''email not confirmed'' \<or> includesStr msg ''confirm your email''
      \<or> includesStr msg ''already registered'' \<or> includesStr msg ''user already exists''
      \<or> includesStr msg ''email already in use''
      \<or> includesStr msg ''reset token is invalid'' \<or> includesStr msg ''token expired''
      \<or> includesStr msg ''invalid or expired''
      \<or> includesStr msg ''password should be at least'' \<or> includesStr msg ''password too short'')"

section \<open>Sample values\<close>

text \<open>Errors, replies and rows at which the theorems below are evaluated.\<close>

definition invalidCreds :: raw_error where
  "invalidCreds = \<lparr>message = Some ''Invalid login credentials'', status = Some 400,
     name = Some ''AuthApiError''\<rparr>"

definition rateLimited :: raw_error where
  "rateLimited = \<lparr>message = Some ''Request rate limit reached'', status = Some 429,
     name = Some ''AuthApiError''\<rparr>"

definition fetchFailed :: raw_error where
  "fetchFailed = \<lparr>message = Some ''Failed to fetch'', status = None, name = Some ''TypeError''\<rparr>"

definition offline :: raw_error where
  "offline = \<lparr>message = Some ''Network request failed'', status = Some 500, name = None\<rparr>"

definition busyNetwork :: raw_error where
  "busyNetwork = \<lparr>message = Some ''Network busy: Too Many Requests'', status = Some 503,
     name = None\<rparr>"

definition serverError :: raw_error where
  "serverError = \<lparr>message = Some ''Internal error'', status = Some 500, name = None\<rparr>"

definition newUser :: auth_reply where
  "newUser = \<lparr>reply_user = Some ''u1'', reply_error = None\<rparr>"

definition staleRow :: user_profile where
  "staleRow = \<lparr>credits = Some 2, credits_reset_at = Some 28800000,
     user_id = ''u1'', email = ''new@x.com''\<rparr>"

definition spentRow :: user_profile where
  "spentRow = \<lparr>credits = Some 0, credits_reset_at = Some 39600000,
     user_id = ''u1'', email = ''new@x.com''\<rparr>"


text \<open>
  Two time zones: UTC, and US Eastern time around 8 March 2026, when at 07:00 UTC the
  clocks go from 02:00 (five hours behind UTC) to 03:00 (four hours behind).
\<close>

definition utc :: time_zone where
  "utc = \<lparr>offsetAt = (\<lambda>t. 0), offsetOfLocal = (\<lambda>loc. 0)\<rparr>"

definition easternSpring2026 :: time_zone where
  "easternSpring2026 =
     \<lparr>offsetAt = (\<lambda>t. if t < 1772953200000 then - 18000000 else - 14400000),
      offsetOfLocal = (\<lambda>loc. if loc < 1772938800000 then - 18000000 else - 14400000)\<rparr>"

declare retryLoop.simps [simp del]
declare digits.simps [simp del]

section \<open>Facts about strings, patterns and digits\<close>

lemma startsWith_iff: "startsWith s sub \<longleftrightarrow> (\<exists>q. s = sub @ q)"
proof
  assume "startsWith s sub"
  then have "s = sub @ drop (length sub) s"
    unfolding startsWith_def by (metis append_take_drop_id)
  then show "\<exists>q. s = sub @ q" ..
next
  assume "\<exists>q. s = sub @ q"
  then show "startsWith s sub" unfolding startsWith_def by auto
qed

lemma includesStr_iff: "includesStr s sub \<longleftrightarrow> (\<exists>p q. s = p @ sub @ q)"
proof (induction s)
  case Nil
  show ?case by auto
next
  case (Cons c cs)
  show ?case
  proof
    assume "includesStr (c # cs) sub"
    then consider "startsWith (c # cs) sub" | "includesStr cs sub" by auto
    then show "\<exists>p q. c # cs = p @ sub @ q"
    proof cases
      case 1
      then obtain q where "c # cs = sub @ q" unfolding startsWith_iff ..
      then have "c # cs = [] @ sub @ q" by simp
      then show ?thesis by blast
    next
      case 2
      then obtain p q where "cs = p @ sub @ q" using Cons.IH by blast
      then have "c # cs = (c # p) @ sub @ q" by simp
      then show ?thesis by blast
    qed
  next
    assume "\<exists>p q. c # cs = p @ sub @ q"
    then obtain p q where pq: "c # cs = p @ sub @ q" by blast
    show "includesStr (c # cs) sub"
    proof (cases p)
      case Nil
      with pq have "startsWith (c # cs) sub" unfolding startsWith_iff by auto
      then show ?thesis by simp
    next
      case (Cons x p')
      with pq have "cs = p' @ sub @ q" by simp
      then have "includesStr cs sub" using Cons.IH by blast
      then show ?thesis by simp
    qed
  qed
qed

lemma regexTest_Lit: "regexTest (Lit c # ps) s \<longleftrightarrow> (\<exists>r. s = c # r \<and> regexTest ps r)"
  by (cases s) auto

lemma regexTest_Plus:
  "regexTest (Plus p # ps) s \<longleftrightarrow>
     (\<exists>a r. s = a @ r \<and> a \<noteq> [] \<and> list_all p a \<and> regexTest ps r)"
proof (induction s)
  case Nil
  show ?case by simp
next
  case (Cons x xs)
  show ?case
  proof
    assume "regexTest (Plus p # ps) (x # xs)"
    then have px: "p x" and alt: "regexTest ps xs \<or> regexTest (Plus p # ps) xs" by simp_all
    from alt show "\<exists>a r. x # xs = a @ r \<and> a \<noteq> [] \<and> list_all p a \<and> regexTest ps r"
    proof
      assume "regexTest ps xs"
      with px have "x # xs = [x] @ xs \<and> [x] \<noteq> [] \<and> list_all p [x] \<and> regexTest ps xs" by simp
      then show ?thesis by blast
    next
      assume "regexTest (Plus p # ps) xs"
      then obtain a r where ar: "xs = a @ r" "list_all p a" "regexTest ps r"
        using Cons.IH by blast
      with px have "x # xs = (x # a) @ r \<and> x # a \<noteq> [] \<and> list_all p (x # a) \<and> regexTest ps r"
        by simp
      then show ?thesis by blast
    qed
  next
    assume "\<exists>a r. x # xs = a @ r \<and> a \<noteq> [] \<and> list_all p a \<and> regexTest ps r"
    then obtain a r where ar: "x # xs = a @ r" "a \<noteq> []" "list_all p a" "regexTest ps r"
      by blast
    then obtain a' where a: "a = x # a'" by (cases a) auto
    with ar have px: "p x" and xs: "xs = a' @ r" and pa: "list_all p a'" by simp_all
    show "regexTest (Plus p # ps) (x # xs)"
    proof (cases a')
      case Nil
      with xs ar px show ?thesis by simp
    next
      case (Cons y ys)
      with xs pa ar have "regexTest (Plus p # ps) xs" using Cons.IH by blast
      with px show ?thesis by simp
    qed
  qed
qed

lemma isValidEmail_iff:
  "isValidEmail s \<longleftrightarrow>
     (\<exists>a b c. s = a @ ''@'' @ b @ ''.'' @ c \<and> a \<noteq> [] \<and> b \<noteq> [] \<and> c \<noteq> []
        \<and> list_all notSpaceAt a \<and> list_all notSpaceAt b \<and> list_all notSpaceAt c)"
proof -
  have last: "regexTest [Plus notSpaceAt] r \<longleftrightarrow> r \<noteq> [] \<and> list_all notSpaceAt r" for r
    unfolding regexTest_Plus by auto
  show ?thesis
    unfolding isValidEmail_def emailPattern_def regexTest_Plus [of _ "_ # _"] regexTest_Lit last
    by (auto; blast)
qed

lemma digitValue_digitChar: "d < 10 \<Longrightarrow> digitValue (digitChar d) = d"
  by (simp add: digitValue_def digitChar_def)

lemma digits_decode: "foldl (\<lambda>acc c. 10 * acc + digitValue c) 0 (digits n) = n"
proof (induction n rule: digits.induct)
  case (1 n)
  show ?case
  proof (cases "n < 10")
    case True
    then show ?thesis by (simp add: digits.simps [of n] digitValue_digitChar)
  next
    case False
    with "1.IH" show ?thesis
      by (simp add: digits.simps [of n] digitValue_digitChar)
  qed
qed


section \<open>Properties of the retry wrapper\<close>

lemma retryLoop_calls_le:
  "calls (retryLoop fn ntimes b i le n ws) \<le> n + (Suc ntimes - i)"
proof (induction fn ntimes b i le n ws rule: retryLoop.induct)
  case (1 fn ntimes b i le n ws)
  show ?case
  proof (cases "i \<le> ntimes")
    case False
    then show ?thesis by (simp add: retryLoop.simps [of fn ntimes b i])
  next
    case True
    show ?thesis
    proof (cases "fn n")
      case (Inr v)
      with True show ?thesis by (simp add: retryLoop.simps [of fn ntimes b i])
    next
      case (Inl err)
      show ?thesis
      proof (cases "\<not> transient err \<or> i = ntimes")
        case stop: True
        with True Inl show ?thesis by (auto simp add: retryLoop.simps [of fn ntimes b i])
      next
        case False
        with True Inl "1.IH" [of err] have
          "calls (retryLoop fn ntimes b (i + 1) err (n + 1) (ws @ [b * 2 ^ i]))
             \<le> n + 1 + (Suc ntimes - (i + 1))"
          by simp
        with True Inl False show ?thesis
          by (simp add: retryLoop.simps [of fn ntimes b i])
      qed
    qed
  qed
qed

lemma retryLoop_all_transient:
  assumes "\<And>k. \<exists>e. fn k = Inl e \<and> transient e"
  shows "i \<le> ntimes \<Longrightarrow>
    retryLoop fn ntimes b i le n ws =
      \<lparr>outcome = fn (n + (ntimes - i)), calls = n + (ntimes - i) + 1,
       waits = ws @ map (\<lambda>j. b * 2 ^ j) [i..<ntimes]\<rparr>"
proof (induction "ntimes - i" arbitrary: i le n ws)
  case 0
  then have eq: "i = ntimes" by simp
  obtain e where e: "fn n = Inl e" using assms by blast
  show ?case using eq e by (simp add: retryLoop.simps [of fn ntimes b ntimes])
next
  case (Suc d)
  then have lt: "i < ntimes" and d: "d = ntimes - (i + 1)" by simp_all
  obtain e where e: "fn n = Inl e" "transient e" using assms by blast
  have step: "retryLoop fn ntimes b i le n ws =
      retryLoop fn ntimes b (i + 1) e (n + 1) (ws @ [b * 2 ^ i])"
    using lt e by (simp add: retryLoop.simps [of fn ntimes b i])
  have le: "i + 1 \<le> ntimes" using lt by simp
  have ih: "retryLoop fn ntimes b (i + 1) e (n + 1) (ws @ [b * 2 ^ i]) =
      \<lparr>outcome = fn (n + 1 + (ntimes - (i + 1))), calls = n + 1 + (ntimes - (i + 1)) + 1,
       waits = (ws @ [b * 2 ^ i]) @ map (\<lambda>j. b * 2 ^ j) [i + 1..<ntimes]\<rparr>"
    by (rule Suc.hyps(1) [OF d le])
  have l: "[i..<ntimes] = i # [i + 1..<ntimes]" using lt by (simp add: upt_conv_Cons)
  have a: "n + 1 + (ntimes - (i + 1)) = n + (ntimes - i)" using lt by simp
  show ?case unfolding step ih a l by simp
qed

lemma retryLoop_stop:
  "fn n = Inl e \<Longrightarrow> \<not> transient e \<or> i = ntimes \<Longrightarrow> i \<le> ntimes \<Longrightarrow>
   retryLoop fn ntimes b i le n ws = \<lparr>outcome = Inl e, calls = n + 1, waits = ws\<rparr>"
  by (auto simp add: retryLoop.simps [of fn ntimes b i])

lemma retryLoop_again:
  "fn n = Inl e \<Longrightarrow> transient e \<Longrightarrow> i < ntimes \<Longrightarrow>
   retryLoop fn ntimes b i le n ws = retryLoop fn ntimes b (i + 1) e (n + 1) (ws @ [b * 2 ^ i])"
  by (simp add: retryLoop.simps [of fn ntimes b i])

lemma retryLoop_resolved:
  "fn n = Inr v \<Longrightarrow> i \<le> ntimes \<Longrightarrow>
   retryLoop fn ntimes b i le n ws = \<lparr>outcome = Inr v, calls = n + 1, waits = ws\<rparr>"
  by (simp add: retryLoop.simps [of fn ntimes b i])

lemma withRetryDefault_resolved:
  "fn 0 = Inr v \<Longrightarrow> withRetryDefault fn = \<lparr>outcome = Inr v, calls = 1, waits = []\<rparr>"
  by (simp add: withRetryDefault_def withRetry_def retryLoop_resolved)

lemma withRetryDefault_final:
  "fn 0 = Inl e \<Longrightarrow> \<not> transient e \<Longrightarrow>
   withRetryDefault fn = \<lparr>outcome = Inl e, calls = 1, waits = []\<rparr>"
  by (simp add: withRetryDefault_def withRetry_def retryLoop_stop)

lemma withRetryDefault_exhausted:
  assumes "fn 0 = Inl e0" "transient e0" "fn 1 = Inl e1" "transient e1" "fn 2 = Inl e2"
  shows "withRetryDefault fn = \<lparr>outcome = Inl e2, calls = 3, waits = [400, 800]\<rparr>"
proof -
  have "withRetryDefault fn = retryLoop fn 2 400 0 undefinedErr 0 []"
    by (simp add: withRetryDefault_def withRetry_def)
  also have "\<dots> = retryLoop fn 2 400 (0 + 1) e0 (0 + 1) ([] @ [400 * 2 ^ 0])"
    by (rule retryLoop_again) (use assms in simp_all)
  also have "\<dots> = retryLoop fn 2 400 1 e0 1 [400]"
    by simp
  also have "\<dots> = retryLoop fn 2 400 (1 + 1) e1 (1 + 1) ([400] @ [400 * 2 ^ 1])"
    by (rule retryLoop_again) (use assms in simp_all)
  also have "\<dots> = retryLoop fn 2 400 2 e1 2 [400, 800]"
    by (simp add: numeral_2_eq_2)
  also have "\<dots> = \<lparr>outcome = Inl e2, calls = 2 + 1, waits = [400, 800]\<rparr>"
    by (rule retryLoop_stop) (use assms in simp_all)
  finally show ?thesis by simp
qed

lemma transient_rateLimited: "transient rateLimited"
  by (simp add: transient_def rateLimited_def statusOf_def)

lemma transient_fetchFailed: "transient fetchFailed"
  by (simp add: transient_def fetchFailed_def statusOf_def)

lemma transient_offline: "transient offline"
  by code_simp

lemma final_invalidCreds: "\<not> transient invalidCreds"
  by code_simp

lemma normalize_invalidCreds:
  "normalizeError invalidCreds = (INVALID_CREDENTIALS, ''Invalid login credentials.'')"
  by code_simp


lemma normalize_fetchFailed:
  "normalizeError fetchFailed = (NETWORK, ''Network error. Check your connection and try again.'')"
  by code_simp

text \<open>
  Claim C4. With its default parameters \<open>withRetry\<close> calls the wrapped operation at most
  3 times. When each of the first three calls throws a transient error (status 429,
  status 0 or absent, or a message containing ``network''), exactly 3 calls are made and
  the error of the third call is the one propagated. When the first call throws an error
  that is not transient, exactly 1 call is made and that error is propagated.
\<close>
theorem withRetry_default_attempts:
  fixes fn :: "nat \<Rightarrow> raw_error + 'a"
  shows "calls (withRetryDefault fn) \<le> 3
     \<and> ((\<forall>k<3. \<exists>e. fn k = Inl e \<and> transient e) \<longrightarrow>
          calls (withRetryDefault fn) = 3 \<and> outcome (withRetryDefault fn) = fn 2)
     \<and> (\<forall>e. fn 0 = Inl e \<and> \<not> transient e \<longrightarrow>
          calls (withRetryDefault fn) = 1 \<and> outcome (withRetryDefault fn) = Inl e)"
proof (intro conjI impI allI)
  show "calls (withRetryDefault fn) \<le> 3"
    using retryLoop_calls_le [of fn 2 400 0 undefinedErr 0 "[]"]
    by (simp add: withRetryDefault_def withRetry_def)
next
  assume all: "\<forall>k<3. \<exists>e. fn k = Inl e \<and> transient e"
  then have "\<exists>e. fn 0 = Inl e \<and> transient e" by simp
  then obtain e0 where e0: "fn 0 = Inl e0" "transient e0" by auto
  from all have "\<exists>e. fn 1 = Inl e \<and> transient e" by simp
  then obtain e1 where e1: "fn 1 = Inl e1" "transient e1" by auto
  from all have "\<exists>e. fn 2 = Inl e \<and> transient e" by simp
  then obtain e2 where e2: "fn 2 = Inl e2" by auto
  have run: "withRetryDefault fn = \<lparr>outcome = Inl e2, calls = 3, waits = [400, 800]\<rparr>"
    using e0 e1 e2 by (rule withRetryDefault_exhausted)
  show "calls (withRetryDefault fn) = 3" unfolding run by simp
  show "outcome (withRetryDefault fn) = fn 2" unfolding run e2 by simp
next
  fix e
  assume "fn 0 = Inl e \<and> \<not> transient e"
  then have run: "withRetryDefault fn = \<lparr>outcome = Inl e, calls = 1, waits = []\<rparr>"
    by (simp add: withRetryDefault_final)
  show "calls (withRetryDefault fn) = 1" unfolding run by simp
  show "outcome (withRetryDefault fn) = Inl e" unfolding run by simp
qed

theorem withRetry_default_attempts_witness:
  "calls (withRetryDefault (\<lambda>k. Inl fetchFailed :: raw_error + auth_reply)) = 3
   \<and> outcome (withRetryDefault (\<lambda>k. Inl fetchFailed :: raw_error + auth_reply)) = Inl fetchFailed
   \<and> calls (withRetryDefault (\<lambda>k. Inl rateLimited :: raw_error + auth_reply)) = 3
   \<and> calls (withRetryDefault (\<lambda>k. Inl offline :: raw_error + auth_reply)) = 3
   \<and> calls (withRetryDefault (\<lambda>k. Inl invalidCreds :: raw_error + auth_reply)) = 1
   \<and> outcome (withRetryDefault (\<lambda>k. Inl invalidCreds :: raw_error + auth_reply)) = Inl invalidCreds
   \<and> fst (normalizeError invalidCreds) = INVALID_CREDENTIALS"
  using withRetry_default_attempts [of "\<lambda>k. Inl fetchFailed :: raw_error + auth_reply"]
    withRetry_default_attempts [of "\<lambda>k. Inl rateLimited :: raw_error + auth_reply"]
    withRetry_default_attempts [of "\<lambda>k. Inl offline :: raw_error + auth_reply"]
    withRetry_default_attempts [of "\<lambda>k. Inl invalidCreds :: raw_error + auth_reply"]
    transient_fetchFailed transient_rateLimited transient_offline final_invalidCreds
    normalize_invalidCreds
  by simp

section \<open>Properties of the classification\<close>

lemma toLowerCase_append: "toLowerCase (a @ b) = toLowerCase a @ toLowerCase b"
  by (simp add: toLowerCase_def)

lemma includesStr_toLowerCase:
  "includesStr s sub \<Longrightarrow> includesStr (toLowerCase s) (toLowerCase sub)"
proof -
  assume "includesStr s sub"
  then obtain p q where "s = p @ sub @ q" unfolding includesStr_iff by blast
  then have "toLowerCase s = toLowerCase p @ toLowerCase sub @ toLowerCase q"
    by (simp add: toLowerCase_append)
  then show ?thesis unfolding includesStr_iff by blast
qed

lemma normalizeError_firstMatch:
  "normalizeError e =
     (case firstMatch precedenceSpec (toLowerCase (messageOr e '''')) (statusOf e) of
        Some r \<Rightarrow> r
      | None \<Rightarrow> (UNKNOWN, messageOr e ''Something went wrong.''))"
  unfolding normalizeError_def precedenceSpec_def Let_def
  by (simp only: firstMatch.simps option.case if_distrib [of "case_option _ _"] cong: if_cong)

lemma normalizeError_fields:
  "message e = message e' \<Longrightarrow> status e = status e' \<Longrightarrow> normalizeError e = normalizeError e'"
proof -
  assume m: "message e = message e'" and s: "status e = status e'"
  have mo: "messageOr e = messageOr e'" by (rule ext) (simp add: messageOr_def m)
  have so: "statusOf e = statusOf e'" by (simp add: statusOf_def s)
  show ?thesis unfolding normalizeError_def mo so by (rule refl)
qed

lemma normalize_busyNetwork:
  "includesStr (toLowerCase (messageOr busyNetwork '''')) ''network''
   \<and> includesStr (toLowerCase (messageOr busyNetwork '''')) ''too many requests''"
  by code_simp

lemma normalizeError_rule1:
  "statusOf e = 429 \<or> includesStr (toLowerCase (messageOr e '''')) ''too many requests'' \<Longrightarrow>
   normalizeError e = (RATE_LIMITED, ''Too many attempts. Try again later.'')"
  unfolding normalizeError_def Let_def by (simp only: if_True)

text \<open>
  Claim C5. \<open>normalizeError\<close> is a function of the message and the status of its argument
  alone: two errors that agree on both fields get the same kind and message. Its result
  is the one the precedence list of the specification gives: the kind and message of the
  first rule that the lower-cased message and the status match, and \<open>UNKNOWN\<close> with the
  message passed through (or the fallback text) when no rule matches. In particular an
  error whose message contains both ``network'' and ``too many requests'' is
  \<open>RATE_LIMITED\<close>, not \<open>NETWORK\<close>.
\<close>
theorem normalizeError_precedence:
  "normalizeError e =
     (case firstMatch precedenceSpec (toLowerCase (messageOr e '''')) (statusOf e) of
        Some r \<Rightarrow> r
      | None \<Rightarrow> (UNKNOWN, messageOr e ''Something went wrong.''))
   \<and> (\<forall>e' :: raw_error. message e' = message e \<and> status e' = status e \<longrightarrow>
         normalizeError e' = normalizeError e)
   \<and> (includesStr (toLowerCase (messageOr e '''')) ''network''
        \<and> includesStr (toLowerCase (messageOr e '''')) ''too many requests''
      \<longrightarrow> fst (normalizeError e) = RATE_LIMITED)"
proof (intro conjI allI impI)
  show "normalizeError e =
     (case firstMatch precedenceSpec (toLowerCase (messageOr e '''')) (statusOf e) of
        Some r \<Rightarrow> r
      | None \<Rightarrow> (UNKNOWN, messageOr e ''Something went wrong.''))"
    by (rule normalizeError_firstMatch)
next
  fix e' :: raw_error
  assume "message e' = message e \<and> status e' = status e"
  then show "normalizeError e' = normalizeError e"
    using normalizeError_fields [of e' e] by blast
next
  assume "includesStr (toLowerCase (messageOr e '''')) ''network''
        \<and> includesStr (toLowerCase (messageOr e '''')) ''too many requests''"
  then have "normalizeError e = (RATE_LIMITED, ''Too many attempts. Try again later.'')"
    by (intro normalizeError_rule1 disjI2) (rule conjunct2)
  then show "fst (normalizeError e) = RATE_LIMITED"
    by simp
qed

theorem normalizeError_precedence_witness:
  "normalizeError busyNetwork = (RATE_LIMITED, ''Too many attempts. Try again later.'')
   \<and> normalizeError (busyNetwork\<lparr>name := Some ''AuthApiError''\<rparr>) = normalizeError busyNetwork"
proof -
  note inst = normalizeError_precedence [of busyNetwork]
  have rl: "fst (normalizeError busyNetwork) = RATE_LIMITED"
    using inst [THEN conjunct2, THEN conjunct2] normalize_busyNetwork by blast
  have same: "normalizeError (busyNetwork\<lparr>name := Some ''AuthApiError''\<rparr>) = normalizeError busyNetwork"
    by (rule inst [THEN conjunct2, THEN conjunct1, rule_format]) simp
  have "snd (normalizeError busyNetwork) = ''Too many attempts. Try again later.''"
    by code_simp
  with rl have "normalizeError busyNetwork = (RATE_LIMITED, ''Too many attempts. Try again later.'')"
    by (simp add: prod_eq_iff)
  with same show ?thesis by simp
qed

lemma statusOf_absent: "status e = None \<Longrightarrow> statusOf e = 0"
  by (simp add: statusOf_def)

lemma firstMatch_Some: "firstMatch rs msg st = Some r \<Longrightarrow> r \<in> snd ` set rs"
  by (induction rs msg st rule: firstMatch.induct) (auto split: if_splits)

lemma precedenceSpec_kinds: "r \<in> snd ` set precedenceSpec \<Longrightarrow> fst r \<noteq> UNKNOWN"
  unfolding precedenceSpec_def by (simp only: list.set image_insert image_empty snd_conv) auto

lemma normalizeError_UNKNOWN:
  "fst (normalizeError e) = UNKNOWN \<longleftrightarrow>
     firstMatch precedenceSpec (toLowerCase (messageOr e '''')) (statusOf e) = None"
proof (cases "firstMatch precedenceSpec (toLowerCase (messageOr e '''')) (statusOf e)")
  case None
  then show ?thesis by (simp add: normalizeError_firstMatch)
next
  case (Some r)
  then have "fst r \<noteq> UNKNOWN" using firstMatch_Some precedenceSpec_kinds by blast
  with Some show ?thesis by (simp add: normalizeError_firstMatch)
qed

lemma precedenceSpec_None:
  "firstMatch precedenceSpec msg st = None \<longleftrightarrow>
     st \<noteq> 429 \<and> st \<noteq> 0 \<and> \<not> firstSixMatch msg \<and> \<not> includesStr msg ''network''"
  unfolding precedenceSpec_def firstSixMatch_def
  by (simp only: firstMatch.simps) (simp; blast)

lemma normalizeError_rule7:
  assumes "statusOf e = 0" "\<not> firstSixMatch (toLowerCase (messageOr e ''''))"
  shows "normalizeError e = (NETWORK, ''Network error. Check your connection and try again.'')"
proof -
  have "firstMatch precedenceSpec (toLowerCase (messageOr e '''')) 0 =
      Some (NETWORK, ''Network error. Check your connection and try again.'')"
    using assms(2) unfolding precedenceSpec_def firstSixMatch_def
    by (simp only: firstMatch.simps) simp
  then show ?thesis by (simp add: normalizeError_firstMatch assms(1))
qed

text \<open>
  Claim C10. \<open>normalizeError\<close> reads an absent or non-numeric status as 0. So an error with
  no numeric status whose message matches none of the message tests of the first six
  rules is \<open>NETWORK\<close>, and the retry policy takes it for transient. \<open>UNKNOWN\<close> is the
  result exactly when the status is a number other than 0 and 429 and the message
  matches no test at all (none of the first six, and not ``network'').
\<close>
theorem normalizeError_absent_status:
  "(status e = None \<longrightarrow> statusOf e = 0)
   \<and> (status e = None \<and> \<not> firstSixMatch (toLowerCase (messageOr e '''')) \<longrightarrow>
        fst (normalizeError e) = NETWORK \<and> transient e)
   \<and> (fst (normalizeError e) = UNKNOWN \<longleftrightarrow>
        (\<exists>n. status e = Some n \<and> n \<noteq> 0 \<and> n \<noteq> 429)
        \<and> \<not> firstSixMatch (toLowerCase (messageOr e ''''))
        \<and> \<not> includesStr (toLowerCase (messageOr e '''')) ''network'')"
proof (intro conjI impI)
  assume "status e = None"
  then show "statusOf e = 0" by (rule statusOf_absent)
next
  assume a: "status e = None \<and> \<not> firstSixMatch (toLowerCase (messageOr e ''''))"
  then have st: "statusOf e = 0" by (simp add: statusOf_absent)
  from a have six: "\<not> firstSixMatch (toLowerCase (messageOr e ''''))" by (rule conjunct2)
  show "fst (normalizeError e) = NETWORK"
    using normalizeError_rule7 [OF st six] by simp
  from st show "transient e"
    by (simp add: transient_def)
next
  have st: "(\<exists>n. status e = Some n \<and> n \<noteq> 0 \<and> n \<noteq> 429) \<longleftrightarrow> statusOf e \<noteq> 429 \<and> statusOf e \<noteq> 0"
    by (cases "status e") (auto simp add: statusOf_def)
  show "fst (normalizeError e) = UNKNOWN \<longleftrightarrow>
        (\<exists>n. status e = Some n \<and> n \<noteq> 0 \<and> n \<noteq> 429)
        \<and> \<not> firstSixMatch (toLowerCase (messageOr e ''''))
        \<and> \<not> includesStr (toLowerCase (messageOr e '''')) ''network''"
    unfolding st normalizeError_UNKNOWN precedenceSpec_None by blast
qed

lemma firstSix_fetchFailed: "\<not> firstSixMatch (toLowerCase (messageOr fetchFailed ''''))"
  by code_simp

lemma plain_serverError:
  "\<not> firstSixMatch (toLowerCase (messageOr serverError ''''))
   \<and> \<not> includesStr (toLowerCase (messageOr serverError '''')) ''network''"
  by code_simp

theorem normalizeError_absent_status_witness:
  "status fetchFailed = None \<and> fst (normalizeError fetchFailed) = NETWORK \<and> transient fetchFailed
   \<and> status serverError = Some 500 \<and> fst (normalizeError serverError) = UNKNOWN"
proof -
  have none: "status fetchFailed = None" by (simp add: fetchFailed_def)
  have "fst (normalizeError fetchFailed) = NETWORK \<and> transient fetchFailed"
    using normalizeError_absent_status [of fetchFailed, THEN conjunct2, THEN conjunct1]
      none firstSix_fetchFailed by blast
  moreover have st: "status serverError = Some 500" by (simp add: serverError_def)
  moreover have "fst (normalizeError serverError) = UNKNOWN"
    using normalizeError_absent_status [of serverError, THEN conjunct2, THEN conjunct2]
      st plain_serverError by simp
  ultimately show ?thesis using none by simp
qed

section \<open>Properties of the date arithmetic\<close>

text \<open>
  Adding 24 to the local hour moves the local time on by one day. In UTC time that is 24
  hours where the offset of the zone stays the same, and 23 or 25 hours across a change
  of the offset.
\<close>

lemma time_within_day:
  fixes loc :: int
  shows "loc mod 86400000 =
     (loc div 3600000 mod 24) * 3600000 + (loc div 60000 mod 60) * 60000
     + (loc div 1000 mod 60) * 1000 + loc mod 1000"
proof -
  have m: "loc mod (1000 * 60) = 1000 * (loc div 1000 mod 60) + loc mod 1000"
    by (rule zmod_zmult2_eq) simp
  have h: "loc mod (60000 * 60) = 60000 * (loc div 60000 mod 60) + loc mod 60000"
    by (rule zmod_zmult2_eq) simp
  have d: "loc mod (3600000 * 24) = 3600000 * (loc div 3600000 mod 24) + loc mod 3600000"
    by (rule zmod_zmult2_eq) simp
  have m': "loc mod 60000 = 1000 * (loc div 1000 mod 60) + loc mod 1000"
    using m by simp
  have h': "loc mod 3600000 = 60000 * (loc div 60000 mod 60) + loc mod 60000"
    using h by simp
  have d': "loc mod 86400000 = 3600000 * (loc div 3600000 mod 24) + loc mod 3600000"
    using d by simp
  show ?thesis unfolding d' h' m' by (simp only: mult.commute add.assoc)
qed

lemma setHoursPlus24_local:
  "setHoursPlus24 zone t = utcTime zone (localTime zone t + msPerDay)"
proof -
  define loc where "loc = localTime zone t"
  define h where "h = loc div 3600000 mod 24"
  define m where "m = loc div 60000 mod 60"
  define s where "s = loc div 1000 mod 60"
  have within: "loc mod 86400000 = h * 3600000 + m * 60000 + s * 1000 + loc mod 1000"
    unfolding h_def m_def s_def by (rule time_within_day)
  have split: "loc div 86400000 * 86400000 + loc mod 86400000 = loc"
    by (rule div_mult_mod_eq)
  have sum: "loc div 86400000 * 86400000
        + ((h + 24) * 3600000 + m * 60000 + s * 1000 + loc mod 1000)
      = loc + 86400000"
  proof -
    have "(h + 24) * 3600000 = h * 3600000 + 86400000"
      by (simp add: distrib_right)
    then have "loc div 86400000 * 86400000
        + ((h + 24) * 3600000 + m * 60000 + s * 1000 + loc mod 1000)
      = (loc div 86400000 * 86400000 + loc mod 86400000) + 86400000"
      unfolding within by simp
    then show ?thesis unfolding split .
  qed
  have "setHoursPlus24 zone t =
      utcTime zone (loc div 86400000 * 86400000
        + ((h + 24) * 3600000 + m * 60000 + s * 1000 + loc mod 1000))"
    unfolding setHoursPlus24_def setHours_def getHours_def Let_def
      msPerDay_def msPerHour_def msPerMinute_def msPerSecond_def loc_def h_def m_def s_def
    by simp
  then show ?thesis
    unfolding sum by (simp add: loc_def msPerDay_def)
qed

lemma setHoursPlus24_fixed_offset:
  "offsetAt zone t = c \<Longrightarrow> offsetOfLocal zone (t + c + 86400000) = c \<Longrightarrow>
   setHoursPlus24 zone t = t + 86400000"
  by (simp add: setHoursPlus24_local utcTime_def localTime_def msPerDay_def)

lemma setHoursPlus24_utc: "setHoursPlus24 utc t = t + 86400000"
  by (rule setHoursPlus24_fixed_offset [where c = 0]) (simp_all add: utc_def)

lemma setHoursPlus24_spring: "setHoursPlus24 easternSpring2026 1772902800000 = 1772985600000"
  by (simp add: setHoursPlus24_local utcTime_def localTime_def msPerDay_def easternSpring2026_def)

section \<open>Properties of sign up and sign in\<close>

lemma valid_sample_email: "isValidEmail ''new@x.com''"
  by code_simp

lemma invalid_sample_email: "\<not> isValidEmail ''new.x.com''"
  by code_simp

text \<open>
  Claim C6. A sign-up whose email does not match the pattern of \<open>isValidEmail\<close> (a local
  part, \<open>@\<close>, a domain, a dot and a top-level part, none empty and none holding white space
  or \<open>@\<close>; see \<open>isValidEmail_iff\<close>) fails with \<open>INVALID_EMAIL\<close>. A sign-up whose email is
  valid and whose password has fewer than 8 characters fails with \<open>WEAK_PASSWORD\<close>. In
  both cases the identity provider is not called, and the account store is left as it is.
\<close>
theorem signUpUser_local_validation:
  "(\<not> isValidEmail mail \<longrightarrow>
      signUpUser zone signUp insertMode newId now tbl mail password =
        \<lparr>result = Failure INVALID_EMAIL ''Enter a valid email address.'' None,
         providerCalls = 0, profiles = tbl\<rparr>)
   \<and> (isValidEmail mail \<and> length password < 8 \<longrightarrow>
      signUpUser zone signUp insertMode newId now tbl mail password =
        \<lparr>result = Failure WEAK_PASSWORD ''Password must be at least 8 characters.'' None,
         providerCalls = 0, profiles = tbl\<rparr>)"
  by (simp add: signUpUser_def isStrongPassword_def)

theorem signUpUser_local_validation_witness:
  "signUpUser utc (\<lambda>m p k. Inr newUser) Done ''p1'' 0 Map.empty ''new.x.com'' ''longenough'' =
     \<lparr>result = Failure INVALID_EMAIL ''Enter a valid email address.'' None,
      providerCalls = 0, profiles = Map.empty\<rparr>
   \<and> signUpUser utc (\<lambda>m p k. Inr newUser) Done ''p1'' 0 Map.empty ''new@x.com'' ''short'' =
     \<lparr>result = Failure WEAK_PASSWORD ''Password must be at least 8 characters.'' None,
      providerCalls = 0, profiles = Map.empty\<rparr>"
  using signUpUser_local_validation
      [where mail = "''new.x.com''" and zone = utc and signUp = "\<lambda>m p k. Inr newUser"
        and insertMode = Done and newId = "''p1''" and now = 0 and tbl = Map.empty
        and password = "''longenough''"]
    signUpUser_local_validation
      [where mail = "''new@x.com''" and zone = utc and signUp = "\<lambda>m p k. Inr newUser"
        and insertMode = Done and newId = "''p1''" and now = 0 and tbl = Map.empty
        and password = "''short''"]
    valid_sample_email invalid_sample_email
  by simp



lemma signUpUser_insert_resolved:
  assumes "isValidEmail mail" and "isStrongPassword password"
    and "outcome (withRetryDefault (signUp mail password)) = Inr reply"
    and "reply_error reply = None"
  shows "(insertMode = Done \<or> insertMode = Refused \<longrightarrow>
           result (signUpUser zone signUp insertMode newId now tbl mail password) =
             Success (Some ''Account created. Check your email to confirm your account.'')
               (reply_user reply))
       \<and> (\<forall>uid. insertMode = Done \<and> reply_user reply = Some uid \<and> uid \<noteq> [] \<and> tbl newId = None \<longrightarrow>
           profiles (signUpUser zone signUp insertMode newId now tbl mail password) =
             tbl(newId \<mapsto> \<lparr>credits = Some 5, credits_reset_at = Some (setHoursPlus24 zone now),
                             user_id = uid, email = mail\<rparr>))"
proof (intro conjI allI impI)
  assume "insertMode = Done \<or> insertMode = Refused"
  then show "result (signUpUser zone signUp insertMode newId now tbl mail password) =
      Success (Some ''Account created. Check your email to confirm your account.'') (reply_user reply)"
    using assms
    by (auto simp add: signUpUser_def insertRow_def Let_def split: option.split)
next
  fix uid
  assume "insertMode = Done \<and> reply_user reply = Some uid \<and> uid \<noteq> [] \<and> tbl newId = None"
  then show "profiles (signUpUser zone signUp insertMode newId now tbl mail password) =
      tbl(newId \<mapsto> \<lparr>credits = Some 5, credits_reset_at = Some (setHoursPlus24 zone now),
                      user_id = uid, email = mail\<rparr>)"
    using assms by (simp add: signUpUser_def insertRow_def Let_def)
qed

text \<open>
  Claim C7 at a sign-up in US Eastern time at noon of 7 March 2026, the day before the
  clocks go forward: the identity provider succeeds, the store carries the insert out and
  the sign-up reports \<open>Success\<close>, but the account it creates has a reset time 23 hours
  after \<open>now\<close>, not 24: \<^verbatim>\<open>setHours(getHours() + 24)\<close> keeps the local wall-clock time of
  the next day. The rest of the claim holds (\<open>signUpUser_insert_resolved\<close> above): the
  result is \<open>Success\<close> whether the store carries the insert out or answers it with an
  error value, the new account has 5 credits, and where the offset of the zone does not
  change its reset time is 24 hours after \<open>now\<close> (\<open>setHoursPlus24_fixed_offset\<close>).
\<close>
theorem signUpUser_reset_23_hours_across_dst:
  "result (signUpUser easternSpring2026 (\<lambda>m p k. Inr newUser) Done ''p1'' 1772902800000
      Map.empty ''new@x.com'' ''longenough'') =
     Success (Some ''Account created. Check your email to confirm your account.'') (Some ''u1'')
   \<and> profiles (signUpUser easternSpring2026 (\<lambda>m p k. Inr newUser) Done ''p1'' 1772902800000
      Map.empty ''new@x.com'' ''longenough'') ''p1'' =
     Some \<lparr>credits = Some 5, credits_reset_at = Some (1772902800000 + 82800000),
           user_id = ''u1'', email = ''new@x.com''\<rparr>"
proof -
  have s: "isStrongPassword ''longenough''" by (simp add: isStrongPassword_def)
  have run: "outcome (withRetryDefault (\<lambda>k. Inr newUser :: raw_error + auth_reply)) = Inr newUser"
    by (simp add: withRetryDefault_resolved)
  have r: "reply_error newUser = None" by (simp add: newUser_def)
  have u: "reply_user newUser = Some ''u1''" by (simp add: newUser_def)
  note inst = signUpUser_insert_resolved
    [where mail = "''new@x.com''" and password = "''longenough''"
      and signUp = "\<lambda>m p k. Inr newUser" and reply = newUser and insertMode = Done
      and zone = easternSpring2026 and newId = "''p1''" and now = 1772902800000
      and tbl = Map.empty, OF valid_sample_email s run r]
  have a: "result (signUpUser easternSpring2026 (\<lambda>m p k. Inr newUser) Done ''p1'' 1772902800000
      Map.empty ''new@x.com'' ''longenough'') =
     Success (Some ''Account created. Check your email to confirm your account.'') (Some ''u1'')"
    using inst [THEN conjunct1] u by simp
  have b: "profiles (signUpUser easternSpring2026 (\<lambda>m p k. Inr newUser) Done ''p1'' 1772902800000
      Map.empty ''new@x.com'' ''longenough'') =
     [''p1'' \<mapsto> \<lparr>credits = Some 5, credits_reset_at = Some 1772985600000,
                   user_id = ''u1'', email = ''new@x.com''\<rparr>]"
    using inst [THEN conjunct2] u by (simp add: setHoursPlus24_spring)
  show ?thesis unfolding a b by simp
qed

section \<open>Properties of the balance fetch\<close>

lemma selectSingle_Done:
  "tbl userId = Some row \<Longrightarrow>
   selectSingle Done tbl userId = Inr (Some (credit_cols.truncate row))"
  by (simp add: selectSingle_def)

lemma truncate_fields:
  "credits (credit_cols.truncate (row :: user_profile)) = credits row"
  "credits_reset_at (credit_cols.truncate (row :: user_profile)) = credits_reset_at row"
  by (simp_all add: credit_cols.truncate_def)

lemma fetchBody_expired:
  assumes "tbl userId = Some row" and "dateOf (credits_reset_at row) \<le> now"
  shows "fetchBody zone Done updateMode now nowAtReset tbl st userId =
     (case updateById updateMode tbl userId (Some 5) (Some (setHoursPlus24 zone nowAtReset)) of
        Inl e \<Rightarrow> Inl e
      | Inr (updateError, tbl') \<Rightarrow>
          if \<not> updateError
          then Inr (st\<lparr>creditsShown := 5, resetTime := Some (setHoursPlus24 zone nowAtReset)\<rparr>, tbl')
          else Inr (st, tbl'))"
  using assms by (simp add: fetchBody_def selectSingle_Done truncate_fields Let_def)

lemma fetchBody_fresh:
  assumes "tbl userId = Some row" and "now < dateOf (credits_reset_at row)"
  shows "fetchBody zone Done updateMode now nowAtReset tbl st userId =
     Inr (st\<lparr>creditsShown := creditsOr5 (credits row), resetTime := credits_reset_at row\<rparr>, tbl)"
  using assms by (simp add: fetchBody_def selectSingle_Done truncate_fields)

lemma fetchBody_no_data:
  "selectMode = Refused \<or> (selectMode = Done \<and> tbl userId = None) \<Longrightarrow>
   fetchBody zone selectMode updateMode now nowAtReset tbl st userId = Inr (st, tbl)"
  by (auto simp add: fetchBody_def selectSingle_def)

lemma fetchBody_select_thrown:
  "fetchBody zone (Thrown e) updateMode now nowAtReset tbl st userId = Inl e"
  by (simp add: fetchBody_def selectSingle_def)

lemma fetchUserCredits_expired:
  assumes "tbl userId = Some row" and "dateOf (credits_reset_at row) \<le> now"
  shows "fetchUserCredits zone Done Done now nowAtReset tbl st userId =
           (st\<lparr>creditsShown := 5, resetTime := Some (setHoursPlus24 zone nowAtReset)\<rparr>,
            tbl(userId \<mapsto> row\<lparr>credits := Some 5,
                               credits_reset_at := Some (setHoursPlus24 zone nowAtReset)\<rparr>))
       \<and> fetchUserCredits zone Done Refused now nowAtReset tbl st userId = (st, tbl)
       \<and> fetchUserCredits zone Done (Thrown e) now nowAtReset tbl st userId =
           (st\<lparr>creditsShown := 5\<rparr>, tbl)"
  by (simp add: fetchUserCredits_def
      fetchBody_expired [where tbl = tbl and userId = userId, OF assms] updateById_def assms(1))

lemma staleRow_expired: "dateOf (credits_reset_at staleRow) \<le> 36000000"
  by (simp add: staleRow_def dateOf_def)

lemma staleRow_expired_2026: "dateOf (credits_reset_at staleRow) \<le> 1772902800000"
  by (simp add: staleRow_def dateOf_def)

text \<open>
  Claim C1 at two reads of an expired account. In the first the store answers the update
  with an error value: nothing is persisted and nothing is shown, the hook keeps its
  state (here the initial one, 0 credits and no reset time) and the stored account stays
  expired. In the second, in US Eastern time at noon of 7 March 2026, the day before the
  clocks go forward, the store carries the update out: the reset time persisted and shown
  is 23 hours after the clock value, not 24, since \<^verbatim>\<open>setHours(getHours() + 24)\<close> keeps
  the local wall-clock time of the next day. Where the store carries the update out and
  the offset of the zone does not change, the claim holds (\<open>fetchUserCredits_expired\<close>
  and \<open>setHoursPlus24_fixed_offset\<close> above).
\<close>
theorem fetchUserCredits_expired_not_reset:
  "dateOf (credits_reset_at staleRow) \<le> 36000000
   \<and> fetchUserCredits zone Done Refused 36000000 36000000 [''u1'' \<mapsto> staleRow] initialState ''u1'' =
       (initialState, [''u1'' \<mapsto> staleRow])
   \<and> creditsShown initialState = 0 \<and> resetTime initialState = None
   \<and> fetchUserCredits easternSpring2026 Done Done 1772902800000 1772902800000
         [''u1'' \<mapsto> staleRow] initialState ''u1'' =
       (initialState\<lparr>creditsShown := 5, resetTime := Some (1772902800000 + 82800000)\<rparr>,
        [''u1'' \<mapsto> staleRow\<lparr>credits := Some 5,
                              credits_reset_at := Some (1772902800000 + 82800000)\<rparr>])"
proof -
  have row: "[''u1'' \<mapsto> staleRow] ''u1'' = Some staleRow" by simp
  have a: "fetchUserCredits zone Done Refused 36000000 36000000 [''u1'' \<mapsto> staleRow] initialState ''u1'' =
       (initialState, [''u1'' \<mapsto> staleRow])"
    using fetchUserCredits_expired [where tbl = "[''u1'' \<mapsto> staleRow]" and userId = "''u1''",
        OF row staleRow_expired]
    by blast
  have b: "fetchUserCredits easternSpring2026 Done Done 1772902800000 1772902800000
         [''u1'' \<mapsto> staleRow] initialState ''u1'' =
       (initialState\<lparr>creditsShown := 5, resetTime := Some 1772985600000\<rparr>,
        [''u1'' \<mapsto> staleRow\<lparr>credits := Some 5, credits_reset_at := Some 1772985600000\<rparr>])"
    using fetchUserCredits_expired [where tbl = "[''u1'' \<mapsto> staleRow]" and userId = "''u1''"
          and zone = easternSpring2026 and nowAtReset = 1772902800000 and st = initialState,
        OF row staleRow_expired_2026, THEN conjunct1]
    by (simp add: setHoursPlus24_spring)
  show ?thesis
    unfolding a b using staleRow_expired by (simp add: initialState_def)
qed

text \<open>
  Claim C2 at a stored balance of 0: the account is not expired and the store is left as
  it is, yet the hook shows 5 credits and not the stored 0, since \<^verbatim>\<open>data.credits || 5\<close>
  takes 0 for absent. For every other stored balance the claim holds
  (\<open>fetchUserCredits_fresh\<close>, \<open>creditsOr5_stored\<close> below).
\<close>
theorem fetchUserCredits_zero_balance_shown_as_5:
  "credits spentRow = Some 0 \<and> 36000000 < dateOf (credits_reset_at spentRow)
   \<and> fetchUserCredits zone Done Done 36000000 36000000 [''u1'' \<mapsto> spentRow] initialState ''u1'' =
       (initialState\<lparr>creditsShown := 5, resetTime := Some 39600000\<rparr>, [''u1'' \<mapsto> spentRow])"
proof -
  have row: "[''u1'' \<mapsto> spentRow] ''u1'' = Some spentRow" by simp
  have fresh: "36000000 < dateOf (credits_reset_at spentRow)"
    by (simp add: spentRow_def dateOf_def)
  have c: "credits spentRow = Some 0" and t: "credits_reset_at spentRow = Some 39600000"
    by (simp_all add: spentRow_def)
  show ?thesis
    using fresh c
    by (simp add: fetchUserCredits_def
        fetchBody_fresh [where tbl = "[''u1'' \<mapsto> spentRow]" and userId = "''u1''", OF row fresh]
        c t creditsOr5_def)
qed

lemma fetchUserCredits_fresh:
  assumes "tbl userId = Some row" and "now < dateOf (credits_reset_at row)"
  shows "fetchUserCredits zone Done updateMode now nowAtReset tbl st userId =
     (st\<lparr>creditsShown := creditsOr5 (credits row), resetTime := credits_reset_at row\<rparr>, tbl)"
  by (simp add: fetchUserCredits_def fetchBody_fresh [where tbl = tbl and userId = userId, OF assms])

lemma creditsOr5_stored: "c \<noteq> 0 \<Longrightarrow> creditsOr5 (Some c) = c"
  by (simp add: creditsOr5_def)

text \<open>
  Claim C3 at an absent account, and at a fetch the store answers with an error value:
  the select resolves without data, the fetch does nothing, and the hook keeps its state
  (initially 0 credits), where the claim has 5 credits shown. Only a fetch that throws
  reaches the fallback to 5 credits (\<open>fetchUserCredits_select_thrown\<close> below); no
  exception leaves \<open>fetchUserCredits\<close> in either case.
\<close>
theorem fetchUserCredits_absent_account_shows_0:
  "fetchUserCredits zone Done Done 36000000 36000000 Map.empty initialState ''u1'' =
     (initialState, Map.empty)
   \<and> fetchUserCredits zone Refused Done 36000000 36000000 [''u1'' \<mapsto> staleRow] initialState ''u1'' =
     (initialState, [''u1'' \<mapsto> staleRow])
   \<and> creditsShown initialState = 0"
  by (simp add: fetchUserCredits_def fetchBody_no_data initialState_def)

lemma fetchUserCredits_select_thrown:
  "fetchUserCredits zone (Thrown e) updateMode now nowAtReset tbl st userId =
     (st\<lparr>creditsShown := 5\<rparr>, tbl)"
  by (simp add: fetchUserCredits_def fetchBody_select_thrown)

section \<open>Properties of the countdown\<close>

lemma showInt_nonneg: "0 \<le> i \<Longrightarrow> showInt i = digits (nat i)"
  by (simp add: showInt_def)

text \<open>
  Claim C8. With \<open>remaining = reset - now\<close>: when \<open>remaining \<le> 0\<close> the countdown is the
  label ``Resetting...''; otherwise it is \<open>h\<close>, ``h '', \<open>m\<close>, ``m'' in decimal digits, where
  \<open>h\<close> hours and \<open>m < 60\<close> minutes are the whole hours and minutes of \<open>remaining\<close> rounded
  down: \<open>h\<close> hours and \<open>m\<close> minutes do not exceed \<open>remaining\<close>, and one minute more does.
\<close>
theorem updateResetTimer_floor:
  "(reset - now \<le> 0 \<longrightarrow> updateResetTimer now reset = ''Resetting...'')
   \<and> (0 < reset - now \<longrightarrow>
        (\<exists>h m. updateResetTimer now reset = digits h @ ''h '' @ digits m @ ''m''
           \<and> m < 60
           \<and> int h * 3600000 + int m * 60000 \<le> reset - now
           \<and> reset - now < int h * 3600000 + int m * 60000 + 60000))"
proof (intro conjI impI)
  assume "reset - now \<le> 0"
  then show "updateResetTimer now reset = ''Resetting...''"
    by (simp add: updateResetTimer_def)
next
  assume pos: "0 < reset - now"
  define d where "d = reset - now"
  define q where "q = d div 3600000"
  define r where "r = d mod 3600000"
  define m where "m = r div 60000"
  have d: "d = q * 3600000 + r" by (simp add: q_def r_def)
  have r: "0 \<le> r" "r < 3600000" by (simp_all add: r_def)
  have q: "0 \<le> q" using pos by (simp add: q_def d_def pos_imp_zdiv_nonneg_iff)
  have m0: "0 \<le> m" using r by (simp add: m_def pos_imp_zdiv_nonneg_iff)
  have rm: "m * 60000 \<le> r" "r < m * 60000 + 60000"
  proof -
    have "r = m * 60000 + r mod 60000" by (simp add: m_def)
    moreover have "0 \<le> r mod 60000" "r mod 60000 < 60000" by simp_all
    ultimately show "m * 60000 \<le> r" "r < m * 60000 + 60000" by linarith+
  qed
  have m: "0 \<le> m" "m < 60" using m0 rm r by linarith+
  have shown: "updateResetTimer now reset = digits (nat q) @ ''h '' @ digits (nat m) @ ''m''"
    using pos q m
    by (simp add: updateResetTimer_def Let_def showInt_nonneg q_def [symmetric] d_def [symmetric]
        r_def [symmetric] m_def [symmetric])
  have "nat m < 60" using m by simp
  moreover have "int (nat q) * 3600000 + int (nat m) * 60000 \<le> reset - now"
    using q m rm d by (simp add: d_def [symmetric])
  moreover have "reset - now < int (nat q) * 3600000 + int (nat m) * 60000 + 60000"
    using q m rm d by (simp add: d_def [symmetric])
  ultimately show "\<exists>h m. updateResetTimer now reset = digits h @ ''h '' @ digits m @ ''m''
           \<and> m < 60
           \<and> int h * 3600000 + int m * 60000 \<le> reset - now
           \<and> reset - now < int h * 3600000 + int m * 60000 + 60000"
    using shown by blast
qed

lemma digits_2: "digits 2 = ''2''" by code_simp
lemma digits_5: "digits 5 = ''5''" by code_simp

lemma sample_countdown: "updateResetTimer 1000 7559999 = ''2h 5m''"
  by code_simp

theorem updateResetTimer_floor_witness:
  "updateResetTimer 5000 5000 = ''Resetting...''
   \<and> updateResetTimer 1000 7559999 = ''2h 5m''
   \<and> (\<exists>h m. updateResetTimer 1000 7559999 = digits h @ ''h '' @ digits m @ ''m''
         \<and> m < 60
         \<and> int h * 3600000 + int m * 60000 \<le> 7559999 - 1000
         \<and> 7559999 - 1000 < int h * 3600000 + int m * 60000 + 60000)"
proof -
  note past = updateResetTimer_floor [of 5000 5000, THEN conjunct1]
  note ahead = updateResetTimer_floor [of 7559999 1000, THEN conjunct2]
  have "updateResetTimer 5000 5000 = ''Resetting...''"
    using past by simp
  moreover have "\<exists>h m. updateResetTimer 1000 7559999 = digits h @ ''h '' @ digits m @ ''m''
         \<and> m < 60
         \<and> int h * 3600000 + int m * 60000 \<le> 7559999 - 1000
         \<and> 7559999 - 1000 < int h * 3600000 + int m * 60000 + 60000"
    by (rule ahead [rule_format]) simp
  ultimately show ?thesis using sample_countdown by blast
qed

end
